theory Spec2Isabelle
  imports Complex_Main
begin

section \<open>The Xiaomi air conditioning companion climate entity\<close>

text \<open>
  A shallow embedding of \<^verbatim>\<open>custom_components/climate/xiaomi_miio.py\<close>: the class
  \<^verbatim>\<open>XiaomiAirConditioningCompanion\<close>, its constructor, the sensor callbacks, the
  command wrapper \<^verbatim>\<open>_try_command\<close>, the poll \<^verbatim>\<open>async_update\<close>, the setters and the two
  senders. Every method takes the object (\<open>self\<close>) and returns the updated object,
  together with the exception that left the method, if one did.
\<close>

subsection \<open>Values, exceptions and log records\<close>

text \<open>
  The exceptions of the module. \<^verbatim>\<open>DeviceException\<close> is the transport exception of the
  device library; the others are the built-in exceptions that the expressions of the
  module can raise (\<^verbatim>\<open>int(None)\<close>, \<^verbatim>\<open>float('abc')\<close>, \<^verbatim>\<open>OperationMode['x']\<close>, and the read of
  a property that the status object lacks).
\<close>

datatype exception = DeviceException string | TypeError | ValueError | KeyError | AttributeError

text \<open>A call of \<^verbatim>\<open>_LOGGER\<close>: its level and its message template.\<close>

datatype level = DEBUG | ERROR

type_synonym log_record = "level \<times> string"

text \<open>
  The values of the attribute dictionary \<^verbatim>\<open>_state_attrs\<close>. The type \<open>'num\<close> stands for
  Python's numbers, which the module stores and passes on and never computes with.
\<close>

datatype 'num pyvalue = PNone | PBool bool | PNum 'num | PStr string

text \<open>
  A member of one of the enumerations of \<^verbatim>\<open>miio.airconditioningcompanion\<close>
  (\<^verbatim>\<open>OperationMode\<close>, \<^verbatim>\<open>FanSpeed\<close>, \<^verbatim>\<open>SwingMode\<close>), known by its \<^verbatim>\<open>.name\<close>. \<^verbatim>\<open>Power(i)\<close> is
  the member of \<^verbatim>\<open>Power\<close> with value \<open>i\<close>, and \<^verbatim>\<open>Led\<close> has the members \<^verbatim>\<open>On\<close> and \<^verbatim>\<open>Off\<close>.
\<close>

datatype enum_member = Member (name: string)

datatype Power = Power int

datatype Led = Led_On | Led_Off

subsection \<open>The device\<close>

text \<open>
  What \<^verbatim>\<open>self._device.status()\<close> returns: an object with the eight properties that
  \<^verbatim>\<open>async_update\<close> reads. The status class belongs to the device library, so what a
  property read gives is a parameter of the model: each read either raises or returns
  a value. The three modes are enumeration members, of which the module reads the
  \<^verbatim>\<open>.name\<close> (a mode without a name is a read that raises); the on/off flag is a boolean,
  the load power and the target temperature are numbers, and the LED is passed through
  as it comes. The model is \<open>None\<close> when the device reports none. A property gives the
  same outcome every time it is read.
\<close>

record 'num status =
  is_on :: "exception + bool"
  air_condition_model :: "exception + string option"
  load_power :: "exception + 'num"
  target_temperature :: "exception + 'num"
  swing_mode :: "exception + enum_member"
  fan_speed :: "exception + enum_member"
  mode :: "exception + enum_member"
  led :: "exception + 'num pyvalue"

text \<open>
  The calls the module makes on \<^verbatim>\<open>self._device\<close>. \<open>Send_configuration\<close> carries the seven
  arguments in the order of the source: model, power, operation mode, target
  temperature, fan speed, swing mode, LED.
\<close>

datatype 'num device_call =
    Device_status
  | Device_on
  | Device_off
  | Send_configuration string Power enum_member "'num option" enum_member enum_member Led
  | Send_command string
  | Send_ir_code string

text \<open>
  The device is outside the module: it answers a command either by raising an
  exception or by returning a list of strings.
\<close>

type_synonym 'num device = "'num device_call \<Rightarrow> exception + string list"

definition SUCCESS :: "string list" where
  "SUCCESS = [''ok'']"

subsection \<open>The entity\<close>

definition ATTR_AIR_CONDITION_MODEL :: string where
  "ATTR_AIR_CONDITION_MODEL = ''ac_model''"

definition ATTR_SWING_MODE :: string where
  "ATTR_SWING_MODE = ''swing_mode''"

definition ATTR_FAN_SPEED :: string where
  "ATTR_FAN_SPEED = ''fan_speed''"

definition ATTR_LOAD_POWER :: string where
  "ATTR_LOAD_POWER = ''load_power''"

definition ATTR_LED :: string where
  "ATTR_LED = ''led''"

text \<open>
  The next three keys are imported by the module from \<^verbatim>\<open>homeassistant\<close>; they have the
  values that package gives them.
\<close>

definition ATTR_TEMPERATURE :: string where
  "ATTR_TEMPERATURE = ''temperature''"

definition ATTR_OPERATION_MODE :: string where
  "ATTR_OPERATION_MODE = ''operation_mode''"

definition ATTR_UNIT_OF_MEASUREMENT :: string where
  "ATTR_UNIT_OF_MEASUREMENT = ''unit_of_measurement''"

text \<open>
  The attributes of the object that the methods assign. The attributes that only the
  constructor assigns (\<^verbatim>\<open>_name\<close>, \<^verbatim>\<open>_unique_id\<close>, \<^verbatim>\<open>_min_temp\<close>, \<^verbatim>\<open>_max_temp\<close>, ...) are left
  out. The last two fields are the effects of the module: the calls of \<^verbatim>\<open>_LOGGER\<close> and
  the calls made on \<^verbatim>\<open>self._device\<close>, oldest first.
\<close>

record 'num entity =
  self_available :: bool
  self_state :: "bool option"
  self_state_attrs :: "string \<rightharpoonup> 'num pyvalue"
  self_current_temperature :: "'num option"
  self_current_swing_mode :: "string option"
  self_current_operation :: "string option"
  self_current_fan_mode :: "string option"
  self_air_condition_model :: "string option"
  self_target_temperature :: "'num option"
  logged :: "log_record list"
  device_calls :: "'num device_call list"

text \<open>
  The state object of the tracked sensor: \<^verbatim>\<open>state.state\<close> and \<^verbatim>\<open>state.attributes\<close>.
\<close>

record sensor_state =
  state :: "string option"
  attributes :: "string \<rightharpoonup> string"

text \<open>
  What the module uses and does not define: Python's \<^verbatim>\<open>float\<close>, the unit conversion
  \<^verbatim>\<open>hass.config.units.temperature\<close>, and the member names of the three enumerations that
  \<^verbatim>\<open>_send_configuration\<close> indexes by name. They are parameters of the model.
\<close>

record 'num externals =
  py_float :: "string \<Rightarrow> exception + 'num"
  units_temperature :: "'num \<Rightarrow> string option \<Rightarrow> exception + 'num"
  OperationMode :: "string list"
  FanSpeed :: "string list"
  SwingMode :: "string list"

subsection \<open>The sensor callbacks\<close>

text \<open>
  \<^verbatim>\<open>_async_update_temp\<close>: the \<^verbatim>\<open>try\<close> block evaluates \<^verbatim>\<open>float(state.state)\<close>, then the
  conversion; a \<^verbatim>\<open>ValueError\<close> of either is logged, any other exception leaves the method.
\<close>

definition update_temp_except :: "exception \<Rightarrow> 'num entity \<Rightarrow> exception option \<times> 'num entity" where
  "update_temp_except ex self =
     (if ex = ValueError
      then (None, self\<lparr>logged := logged self @ [(ERROR, ''Unable to update from sensor: %s'')]\<rparr>)
      else (Some ex, self))"

definition async_update_temp ::
  "'num externals \<Rightarrow> sensor_state \<Rightarrow> 'num entity \<Rightarrow> exception option \<times> 'num entity" where
  "async_update_temp ext st self =
     (case state st of
        None \<Rightarrow> (None, self)
      | Some s \<Rightarrow>
          if s = ''unknown'' then (None, self)
          else
            (let unit = attributes st ATTR_UNIT_OF_MEASUREMENT in
             case py_float ext s of
               Inl ex \<Rightarrow> update_temp_except ex self
             | Inr v \<Rightarrow>
                 (case units_temperature ext v unit of
                    Inl ex \<Rightarrow> update_temp_except ex self
                  | Inr t \<Rightarrow> (None, self\<lparr>self_current_temperature := Some t\<rparr>))))"

definition async_sensor_changed ::
  "'num externals \<Rightarrow> sensor_state option \<Rightarrow> 'num entity \<Rightarrow> exception option \<times> 'num entity" where
  "async_sensor_changed ext new_state self =
     (case new_state of
        None \<Rightarrow> (None, self)
      | Some st \<Rightarrow> async_update_temp ext st self)"

subsection \<open>The constructor\<close>

text \<open>
  \<^verbatim>\<open>__init__\<close>. The second argument is what \<^verbatim>\<open>hass.states.get(sensor_entity_id)\<close> returns.
  An exception of the eager sensor update leaves the constructor, and no object exists.
\<close>

definition init ::
  "'num externals \<Rightarrow> string \<Rightarrow> sensor_state option \<Rightarrow> exception + 'num entity" where
  "init ext sensor_entity_id sensor_state =
     (let self = \<lparr>
        self_available = False,
        self_state = None,
        self_state_attrs = [
          ATTR_AIR_CONDITION_MODEL \<mapsto> PNone,
          ATTR_LOAD_POWER \<mapsto> PNone,
          ATTR_TEMPERATURE \<mapsto> PNone,
          ATTR_SWING_MODE \<mapsto> PNone,
          ATTR_FAN_SPEED \<mapsto> PNone,
          ATTR_OPERATION_MODE \<mapsto> PNone,
          ATTR_LED \<mapsto> PNone],
        self_current_temperature = None,
        self_current_swing_mode = None,
        self_current_operation = None,
        self_current_fan_mode = None,
        self_air_condition_model = None,
        self_target_temperature = None,
        logged = [],
        device_calls = []\<rparr>
      in
        if sensor_entity_id \<noteq> [] then
          (case sensor_state of
             None \<Rightarrow> Inr self
           | Some st \<Rightarrow>
               (case async_update_temp ext st self of
                  (None, self') \<Rightarrow> Inr self'
                | (Some ex, self') \<Rightarrow> Inl ex))
        else Inr self)"

subsection \<open>The command wrapper, on and off\<close>

text \<open>
  \<^verbatim>\<open>_try_command\<close>: the call is made; a returned result is logged at debug level and
  compared with \<^verbatim>\<open>SUCCESS\<close>; a \<^verbatim>\<open>DeviceException\<close> is logged with the caller's message,
  the entity becomes unavailable and the result is \<^verbatim>\<open>False\<close>; any other exception leaves
  the method.
\<close>

definition try_command ::
  "string \<Rightarrow> 'num device \<Rightarrow> 'num device_call \<Rightarrow> 'num entity \<Rightarrow> (exception + bool) \<times> 'num entity" where
  "try_command mask_error dev call self =
     (let self = self\<lparr>device_calls := device_calls self @ [call]\<rparr> in
      case dev call of
        Inr result \<Rightarrow>
          (Inr (result = SUCCESS),
           self\<lparr>logged := logged self @ [(DEBUG, ''Response received: %s'')]\<rparr>)
      | Inl (DeviceException msg) \<Rightarrow>
          (Inr False,
           self\<lparr>logged := logged self @ [(ERROR, mask_error)], self_available := False\<rparr>)
      | Inl ex \<Rightarrow> (Inl ex, self))"

definition async_turn_on :: "'num device \<Rightarrow> 'num entity \<Rightarrow> exception option \<times> 'num entity" where
  "async_turn_on dev self =
     (case try_command ''Turning the miio device on failed.'' dev Device_on self of
        (Inl ex, self) \<Rightarrow> (Some ex, self)
      | (Inr result, self) \<Rightarrow>
          (None, if result then self\<lparr>self_state := Some True\<rparr> else self))"

definition async_turn_off :: "'num device \<Rightarrow> 'num entity \<Rightarrow> exception option \<times> 'num entity" where
  "async_turn_off dev self =
     (case try_command ''Turning the miio device off failed.'' dev Device_off self of
        (Inl ex, self) \<Rightarrow> (Some ex, self)
      | (Inr result, self) \<Rightarrow>
          (None, if result then self\<lparr>self_state := Some False\<rparr> else self))"

subsection \<open>The poll\<close>

definition pystr :: "string option \<Rightarrow> 'num pyvalue" where
  "pystr v = (case v of None \<Rightarrow> PNone | Some s \<Rightarrow> PStr s)"

text \<open>
  The dictionary literal that \<^verbatim>\<open>async_update\<close> passes to \<^verbatim>\<open>_state_attrs.update\<close>: the seven
  values are read in the order of the source, and the first read that raises leaves
  the literal unbuilt.
\<close>

definition status_attrs :: "'num status \<Rightarrow> exception + (string \<rightharpoonup> 'num pyvalue)" where
  "status_attrs st =
     (case air_condition_model st of Inl ex \<Rightarrow> Inl ex | Inr model \<Rightarrow>
     (case load_power st of Inl ex \<Rightarrow> Inl ex | Inr load \<Rightarrow>
     (case target_temperature st of Inl ex \<Rightarrow> Inl ex | Inr temperature \<Rightarrow>
     (case swing_mode st of Inl ex \<Rightarrow> Inl ex | Inr swing \<Rightarrow>
     (case fan_speed st of Inl ex \<Rightarrow> Inl ex | Inr fan \<Rightarrow>
     (case mode st of Inl ex \<Rightarrow> Inl ex | Inr operation \<Rightarrow>
     (case led st of Inl ex \<Rightarrow> Inl ex | Inr l \<Rightarrow>
        Inr [ATTR_AIR_CONDITION_MODEL \<mapsto> pystr model,
             ATTR_LOAD_POWER \<mapsto> PNum load,
             ATTR_TEMPERATURE \<mapsto> PNum temperature,
             ATTR_SWING_MODE \<mapsto> PStr (name swing),
             ATTR_FAN_SPEED \<mapsto> PStr (name fan),
             ATTR_OPERATION_MODE \<mapsto> PStr (name operation),
             ATTR_LED \<mapsto> l])))))))"

text \<open>
  The \<^verbatim>\<open>except DeviceException\<close> clause of \<^verbatim>\<open>async_update\<close>, applied to an exception raised
  anywhere in the \<^verbatim>\<open>try\<close> block: the transport exception makes the entity unavailable and
  is logged; any other exception leaves the method, with the object as the block left
  it.
\<close>

definition update_except :: "exception \<Rightarrow> 'num entity \<Rightarrow> exception option \<times> 'num entity" where
  "update_except ex self =
     (case ex of
        DeviceException msg \<Rightarrow>
          (None,
           self\<lparr>self_available := False,
                logged := logged self @ [(ERROR, ''Got exception while fetching the state: %s'')]\<rparr>)
      | _ \<Rightarrow> (Some ex, self))"

text \<open>
  \<^verbatim>\<open>async_update\<close>. The first argument is the outcome of \<^verbatim>\<open>self._device.status()\<close>. The
  statements of the \<^verbatim>\<open>try\<close> block run in the order of the source: \<^verbatim>\<open>_available\<close> is set
  before the first property is read, each assignment is made as soon as its right-hand
  side is read, and the model is latched last.
\<close>

definition async_update ::
  "exception + 'num status \<Rightarrow> 'num entity \<Rightarrow> exception option \<times> 'num entity" where
  "async_update answer self =
     (let self = self\<lparr>device_calls := device_calls self @ [Device_status]\<rparr> in
      case answer of
        Inl ex \<Rightarrow> update_except ex self
      | Inr st \<Rightarrow>
     (let self = self\<lparr>logged := logged self @ [(DEBUG, ''Got new state: %s'')]\<rparr>;
          self = self\<lparr>self_available := True\<rparr> in
      case is_on st of Inl ex \<Rightarrow> update_except ex self | Inr b \<Rightarrow>
     (let self = self\<lparr>self_state := Some b\<rparr> in
      case status_attrs st of Inl ex \<Rightarrow> update_except ex self | Inr attrs \<Rightarrow>
     (let self = self\<lparr>self_state_attrs := self_state_attrs self ++ attrs\<rparr> in
      case mode st of Inl ex \<Rightarrow> update_except ex self | Inr operation \<Rightarrow>
     (let self = self\<lparr>self_current_operation := Some (name operation)\<rparr> in
      case target_temperature st of Inl ex \<Rightarrow> update_except ex self | Inr temperature \<Rightarrow>
     (let self = self\<lparr>self_target_temperature := Some temperature\<rparr> in
      case fan_speed st of Inl ex \<Rightarrow> update_except ex self | Inr fan \<Rightarrow>
     (let self = self\<lparr>self_current_fan_mode := Some (name fan)\<rparr> in
      case swing_mode st of Inl ex \<Rightarrow> update_except ex self | Inr swing \<Rightarrow>
     (let self = self\<lparr>self_current_swing_mode := Some (name swing)\<rparr> in
      if self_air_condition_model self = None
      then (case air_condition_model st of
              Inl ex \<Rightarrow> update_except ex self
            | Inr model \<Rightarrow> (None, self\<lparr>self_air_condition_model := model\<rparr>))
      else (None, self)))))))))"

subsection \<open>The configuration push and the setters\<close>

text \<open>
  \<^verbatim>\<open>int(self._state)\<close> raises \<^verbatim>\<open>TypeError\<close> on \<^verbatim>\<open>None\<close>; \<^verbatim>\<open>E[name]\<close> raises \<^verbatim>\<open>KeyError\<close> unless
  \<open>name\<close> is the name of a member of \<open>E\<close>.
\<close>

definition py_int :: "bool option \<Rightarrow> exception + int" where
  "py_int b = (case b of None \<Rightarrow> Inl TypeError | Some v \<Rightarrow> Inr (if v then 1 else 0))"

definition getitem :: "string list \<Rightarrow> string option \<Rightarrow> exception + enum_member" where
  "getitem members key =
     (case key of
        None \<Rightarrow> Inl KeyError
      | Some n \<Rightarrow> if n \<in> set members then Inr (Member n) else Inl KeyError)"

text \<open>
  \<^verbatim>\<open>_send_configuration\<close>. The arguments of the push are evaluated from left to right
  before \<^verbatim>\<open>_try_command\<close> is called, so an exception of one of them leaves the method
  with no call made.
\<close>

definition send_configuration ::
  "'num externals \<Rightarrow> 'num device \<Rightarrow> 'num entity \<Rightarrow> exception option \<times> 'num entity" where
  "send_configuration ext dev self =
     (case self_air_condition_model self of
        Some model \<Rightarrow>
          (case py_int (self_state self) of
             Inl ex \<Rightarrow> (Some ex, self)
           | Inr i \<Rightarrow>
          (case getitem (OperationMode ext) (self_current_operation self) of
             Inl ex \<Rightarrow> (Some ex, self)
           | Inr m \<Rightarrow>
          (case getitem (FanSpeed ext) (self_current_fan_mode self) of
             Inl ex \<Rightarrow> (Some ex, self)
           | Inr f \<Rightarrow>
          (case getitem (SwingMode ext) (self_current_swing_mode self) of
             Inl ex \<Rightarrow> (Some ex, self)
           | Inr sw \<Rightarrow>
          (case try_command ''Sending new air conditioner configuration failed.'' dev
                  (Send_configuration model (Power i) m (self_target_temperature self) f sw Led_Off)
                  self of
             (Inl ex, self) \<Rightarrow> (Some ex, self)
           | (Inr result, self) \<Rightarrow> (None, self))))))
      | None \<Rightarrow>
          (None,
           self\<lparr>logged := logged self @
             [(ERROR, ''Model number of the air condition unknown. Configuration cannot be sent.'')]\<rparr>))"

text \<open>
  \<^verbatim>\<open>async_set_temperature(**kwargs)\<close>: the two arguments are \<^verbatim>\<open>kwargs.get(ATTR_TEMPERATURE)\<close>
  and \<^verbatim>\<open>kwargs.get(ATTR_OPERATION_MODE)\<close>.
\<close>

definition async_set_temperature ::
  "'num externals \<Rightarrow> 'num device \<Rightarrow> 'num option \<Rightarrow> string option \<Rightarrow> 'num entity
     \<Rightarrow> exception option \<times> 'num entity" where
  "async_set_temperature ext dev temperature operation_mode self =
     (let self = (case temperature of
                    Some t \<Rightarrow> self\<lparr>self_target_temperature := Some t\<rparr>
                  | None \<Rightarrow> self);
          self = (case operation_mode of
                    Some m \<Rightarrow> self\<lparr>self_current_operation := Some m\<rparr>
                  | None \<Rightarrow> self)
      in send_configuration ext dev self)"

definition async_set_swing_mode ::
  "'num externals \<Rightarrow> 'num device \<Rightarrow> string \<Rightarrow> 'num entity \<Rightarrow> exception option \<times> 'num entity" where
  "async_set_swing_mode ext dev swing self =
     send_configuration ext dev (self\<lparr>self_current_swing_mode := Some swing\<rparr>)"

definition async_set_fan_mode ::
  "'num externals \<Rightarrow> 'num device \<Rightarrow> string \<Rightarrow> 'num entity \<Rightarrow> exception option \<times> 'num entity" where
  "async_set_fan_mode ext dev fan self =
     send_configuration ext dev (self\<lparr>self_current_fan_mode := Some fan\<rparr>)"

definition async_set_operation_mode ::
  "'num externals \<Rightarrow> 'num device \<Rightarrow> string \<Rightarrow> 'num entity \<Rightarrow> exception option \<times> 'num entity" where
  "async_set_operation_mode ext dev operation_mode self =
     send_configuration ext dev (self\<lparr>self_current_operation := Some operation_mode\<rparr>)"

subsection \<open>The raw command sender\<close>

text \<open>\<^verbatim>\<open>_send_custom_command\<close>; \<^verbatim>\<open>command[0:2]\<close> is \<open>take 2 command\<close>.\<close>

definition send_custom_command ::
  "'num device \<Rightarrow> string \<Rightarrow> 'num entity \<Rightarrow> exception option \<times> 'num entity" where
  "send_custom_command dev command self =
     (case (if take 2 command = ''01''
            then try_command ''Sending new air conditioner configuration failed.'' dev
                   (Send_command command) self
            else try_command ''Sending new air conditioner configuration failed.'' dev
                   (Send_ir_code command) self) of
        (Inl ex, self) \<Rightarrow> (Some ex, self)
      | (Inr result, self) \<Rightarrow> (None, self))"

subsection \<open>Sequences of calls\<close>

text \<open>
  What the host can do with the entity: poll it, switch it, call a setter, deliver a
  sensor change, send a raw command. Each event carries what the outside answers.
  The host keeps the object when a method raises, so a run continues from the state
  the method left.
\<close>

datatype 'num event =
    Update "exception + 'num status"
  | Turn_on "'num device"
  | Turn_off "'num device"
  | Set_temperature "'num option" "string option" "'num device"
  | Set_swing_mode string "'num device"
  | Set_fan_mode string "'num device"
  | Set_operation_mode string "'num device"
  | Sensor_changed "sensor_state option"
  | Send_custom_command string "'num device"

fun step :: "'num externals \<Rightarrow> 'num event \<Rightarrow> 'num entity \<Rightarrow> exception option \<times> 'num entity" where
  "step ext (Update answer) self = async_update answer self"
| "step ext (Turn_on dev) self = async_turn_on dev self"
| "step ext (Turn_off dev) self = async_turn_off dev self"
| "step ext (Set_temperature t m dev) self = async_set_temperature ext dev t m self"
| "step ext (Set_swing_mode sw dev) self = async_set_swing_mode ext dev sw self"
| "step ext (Set_fan_mode f dev) self = async_set_fan_mode ext dev f self"
| "step ext (Set_operation_mode m dev) self = async_set_operation_mode ext dev m self"
| "step ext (Sensor_changed new_state) self = async_sensor_changed ext new_state self"
| "step ext (Send_custom_command command dev) self = send_custom_command dev command self"

fun run :: "'num externals \<Rightarrow> 'num event list \<Rightarrow> 'num entity \<Rightarrow> 'num entity" where
  "run ext [] self = self"
| "run ext (ev # evs) self = run ext evs (snd (step ext ev self))"

text \<open>Every property of the status object can be read.\<close>

definition readable :: "'num status \<Rightarrow> bool" where
  "readable st \<longleftrightarrow>
     \<not> isl (is_on st) \<and> \<not> isl (air_condition_model st) \<and> \<not> isl (load_power st) \<and>
     \<not> isl (target_temperature st) \<and> \<not> isl (swing_mode st) \<and> \<not> isl (fan_speed st) \<and>
     \<not> isl (mode st) \<and> \<not> isl (led st)"

text \<open>
  A poll that succeeds: the status call returned and every property could be read, so
  the whole \<^verbatim>\<open>try\<close> block ran. A poll whose status call returned may still fail, at a
  property.
\<close>

fun successful_poll :: "'num event \<Rightarrow> bool" where
  "successful_poll (Update (Inr st)) = readable st"
| "successful_poll ev = False"

fun status_returned :: "'num event \<Rightarrow> bool" where
  "status_returned (Update (Inr st)) = True"
| "status_returned ev = False"

text \<open>The device that a command talks to; a poll and a sensor change are no commands.\<close>

fun command_device :: "'num event \<Rightarrow> 'num device option" where
  "command_device (Update answer) = None"
| "command_device (Turn_on dev) = Some dev"
| "command_device (Turn_off dev) = Some dev"
| "command_device (Set_temperature t m dev) = Some dev"
| "command_device (Set_swing_mode sw dev) = Some dev"
| "command_device (Set_fan_mode f dev) = Some dev"
| "command_device (Set_operation_mode m dev) = Some dev"
| "command_device (Sensor_changed new_state) = None"
| "command_device (Send_custom_command command dev) = Some dev"

text \<open>A sequence of polls that all fail with the transport exception.\<close>

definition failed_polls :: "string list \<Rightarrow> 'num event list" where
  "failed_polls msgs = map (\<lambda>msg. Update (Inl (DeviceException msg))) msgs"

text \<open>The five attributes that \<^verbatim>\<open>_send_configuration\<close> reads besides the model are set.\<close>

definition push_fields_set :: "'num entity \<Rightarrow> bool" where
  "push_fields_set self \<longleftrightarrow>
     self_state self \<noteq> None \<and> self_current_operation self \<noteq> None \<and>
     self_current_fan_mode self \<noteq> None \<and> self_current_swing_mode self \<noteq> None \<and>
     self_target_temperature self \<noteq> None"

subsection \<open>A concrete instance\<close>

text \<open>
  An instance of the parameters, with rational numbers for Python's numbers, and the
  inputs of the closed examples below: a status, three devices (one acknowledges
  every command with \<^verbatim>\<open>['ok']\<close>, one with \<^verbatim>\<open>['error']\<close>, one raises the transport exception)
  and three states of the sensor.
\<close>

definition example_externals :: "rat externals" where
  "example_externals = \<lparr>
     py_float = (\<lambda>s. if s = ''21.5'' then Inr (43 / 2) else Inl ValueError),
     units_temperature = (\<lambda>v unit. if unit = Some ''C'' then Inr v else Inl ValueError),
     OperationMode = [''Heat'', ''Cool'', ''Auto'', ''Dehumidify'', ''Ventilate''],
     FanSpeed = [''Low'', ''Medium'', ''High'', ''Auto''],
     SwingMode = [''On'', ''Off'']\<rparr>"

definition example_status :: "rat status" where
  "example_status = \<lparr>
     is_on = Inr True,
     air_condition_model = Inr (Some ''X''),
     load_power = Inr 2,
     target_temperature = Inr 24,
     swing_mode = Inr (Member ''On''),
     fan_speed = Inr (Member ''Low''),
     mode = Inr (Member ''Cool''),
     led = Inr (PStr ''on'')\<rparr>"

text \<open>The same status, of an object that has no \<^verbatim>\<open>led\<close> property.\<close>

definition example_status_no_led :: "rat status" where
  "example_status_no_led = example_status\<lparr>led := Inl AttributeError\<rparr>"

definition device_ok :: "rat device" where
  "device_ok call = Inr [''ok'']"

definition device_nack :: "rat device" where
  "device_nack call = Inr [''error'']"

definition device_down :: "rat device" where
  "device_down call = Inl (DeviceException ''timeout'')"

definition sensor_unknown :: sensor_state where
  "sensor_unknown = \<lparr>state = Some ''unknown'', attributes = [ATTR_UNIT_OF_MEASUREMENT \<mapsto> ''C'']\<rparr>"

definition sensor_21_5 :: sensor_state where
  "sensor_21_5 = \<lparr>state = Some ''21.5'', attributes = [ATTR_UNIT_OF_MEASUREMENT \<mapsto> ''C'']\<rparr>"

definition sensor_abc :: sensor_state where
  "sensor_abc = \<lparr>state = Some ''abc'', attributes = [ATTR_UNIT_OF_MEASUREMENT \<mapsto> ''C'']\<rparr>"

text \<open>
  The object after the constructor (the sensor has no state yet), and after one
  successful poll.
\<close>

definition example_new :: "rat entity" where
  "example_new = \<lparr>
     self_available = False,
     self_state = None,
     self_state_attrs = [
       ATTR_AIR_CONDITION_MODEL \<mapsto> PNone,
       ATTR_LOAD_POWER \<mapsto> PNone,
       ATTR_TEMPERATURE \<mapsto> PNone,
       ATTR_SWING_MODE \<mapsto> PNone,
       ATTR_FAN_SPEED \<mapsto> PNone,
       ATTR_OPERATION_MODE \<mapsto> PNone,
       ATTR_LED \<mapsto> PNone],
     self_current_temperature = None,
     self_current_swing_mode = None,
     self_current_operation = None,
     self_current_fan_mode = None,
     self_air_condition_model = None,
     self_target_temperature = None,
     logged = [],
     device_calls = []\<rparr>"

definition example_polled :: "rat entity" where
  "example_polled = snd (async_update (Inr example_status) example_new)"

text \<open>A run: a successful poll, then the fan mode is set.\<close>

definition example_events :: "rat event list" where
  "example_events = [Update (Inr example_status), Set_fan_mode ''High'' device_ok]"

section \<open>Properties\<close>

subsection \<open>What each method leaves unchanged\<close>

lemma snd_case_result:
  "snd (case p of (Inl ex, s) \<Rightarrow> (f ex, s) | (Inr r, s) \<Rightarrow> (g r, s)) = snd p"
  by (simp split: prod.splits sum.splits)

lemma try_command_frame:
  "self_state (snd (try_command mask_error dev call self)) = self_state self"
  "self_state_attrs (snd (try_command mask_error dev call self)) = self_state_attrs self"
  "self_current_temperature (snd (try_command mask_error dev call self)) = self_current_temperature self"
  "self_current_swing_mode (snd (try_command mask_error dev call self)) = self_current_swing_mode self"
  "self_current_operation (snd (try_command mask_error dev call self)) = self_current_operation self"
  "self_current_fan_mode (snd (try_command mask_error dev call self)) = self_current_fan_mode self"
  "self_air_condition_model (snd (try_command mask_error dev call self)) = self_air_condition_model self"
  "self_target_temperature (snd (try_command mask_error dev call self)) = self_target_temperature self"
  "device_calls (snd (try_command mask_error dev call self)) = device_calls self @ [call]"
  by (simp_all add: try_command_def Let_def split: sum.splits exception.splits)

lemma try_command_available:
  "self_available (snd (try_command mask_error dev call self)) \<Longrightarrow> self_available self"
  by (simp add: try_command_def Let_def split: sum.splits exception.splits)

lemma send_configuration_snd:
  "snd (send_configuration ext dev self) = self
   \<or> (\<exists>call. snd (send_configuration ext dev self) =
         snd (try_command ''Sending new air conditioner configuration failed.'' dev call self))
   \<or> (\<exists>l. snd (send_configuration ext dev self) = self\<lparr>logged := l\<rparr>)"
  unfolding send_configuration_def
  by (simp add: snd_case_result split: option.splits sum.splits) blast

lemma send_configuration_frame:
  "self_state (snd (send_configuration ext dev self)) = self_state self"
  "self_state_attrs (snd (send_configuration ext dev self)) = self_state_attrs self"
  "self_current_temperature (snd (send_configuration ext dev self)) = self_current_temperature self"
  "self_current_swing_mode (snd (send_configuration ext dev self)) = self_current_swing_mode self"
  "self_current_operation (snd (send_configuration ext dev self)) = self_current_operation self"
  "self_current_fan_mode (snd (send_configuration ext dev self)) = self_current_fan_mode self"
  "self_air_condition_model (snd (send_configuration ext dev self)) = self_air_condition_model self"
  "self_target_temperature (snd (send_configuration ext dev self)) = self_target_temperature self"
  using send_configuration_snd [of ext dev self]
  by (auto simp: try_command_frame)

lemma send_configuration_available:
  "self_available (snd (send_configuration ext dev self)) \<Longrightarrow> self_available self"
  using send_configuration_snd [of ext dev self]
  by (auto dest: try_command_available)

lemma send_configuration_calls:
  "device_calls (snd (send_configuration ext dev self)) = device_calls self
   \<or> (\<exists>model p m f sw. self_air_condition_model self = Some model \<and>
         device_calls (snd (send_configuration ext dev self)) =
           device_calls self @
             [Send_configuration model p m (self_target_temperature self) f sw Led_Off])"
  unfolding send_configuration_def
  by (simp add: snd_case_result try_command_frame split: option.splits sum.splits)

lemma async_update_temp_frame:
  "self_available (snd (async_update_temp ext st self)) = self_available self"
  "self_state (snd (async_update_temp ext st self)) = self_state self"
  "self_state_attrs (snd (async_update_temp ext st self)) = self_state_attrs self"
  "self_current_swing_mode (snd (async_update_temp ext st self)) = self_current_swing_mode self"
  "self_current_operation (snd (async_update_temp ext st self)) = self_current_operation self"
  "self_current_fan_mode (snd (async_update_temp ext st self)) = self_current_fan_mode self"
  "self_air_condition_model (snd (async_update_temp ext st self)) = self_air_condition_model self"
  "self_target_temperature (snd (async_update_temp ext st self)) = self_target_temperature self"
  "device_calls (snd (async_update_temp ext st self)) = device_calls self"
  by (simp_all add: async_update_temp_def update_temp_except_def Let_def
        split: option.splits sum.splits)

lemma async_sensor_changed_frame:
  "self_available (snd (async_sensor_changed ext new_state self)) = self_available self"
  "self_state (snd (async_sensor_changed ext new_state self)) = self_state self"
  "self_state_attrs (snd (async_sensor_changed ext new_state self)) = self_state_attrs self"
  "self_current_swing_mode (snd (async_sensor_changed ext new_state self)) = self_current_swing_mode self"
  "self_current_operation (snd (async_sensor_changed ext new_state self)) = self_current_operation self"
  "self_current_fan_mode (snd (async_sensor_changed ext new_state self)) = self_current_fan_mode self"
  "self_air_condition_model (snd (async_sensor_changed ext new_state self)) = self_air_condition_model self"
  "self_target_temperature (snd (async_sensor_changed ext new_state self)) = self_target_temperature self"
  "device_calls (snd (async_sensor_changed ext new_state self)) = device_calls self"
  by (simp_all add: async_sensor_changed_def async_update_temp_frame split: option.splits)

lemma snd_turn:
  "snd (case p of (Inl ex, s) \<Rightarrow> (f ex, s) | (Inr r, s) \<Rightarrow> (g r, if r then h s else s)) =
     (if fst p = Inr True then h (snd p) else snd p)"
  by (auto split: prod.splits sum.splits)

lemma async_turn_on_snd:
  "snd (async_turn_on dev self) =
     (let s = snd (try_command ''Turning the miio device on failed.'' dev Device_on self)
      in if dev Device_on = Inr SUCCESS then s\<lparr>self_state := Some True\<rparr> else s)"
  unfolding async_turn_on_def snd_turn Let_def
  by (auto simp: try_command_def Let_def split: sum.splits exception.splits)

lemma async_turn_off_snd:
  "snd (async_turn_off dev self) =
     (let s = snd (try_command ''Turning the miio device off failed.'' dev Device_off self)
      in if dev Device_off = Inr SUCCESS then s\<lparr>self_state := Some False\<rparr> else s)"
  unfolding async_turn_off_def snd_turn Let_def
  by (auto simp: try_command_def Let_def split: sum.splits exception.splits)

lemma send_custom_command_snd:
  "snd (send_custom_command dev command self) =
     snd (try_command ''Sending new air conditioner configuration failed.'' dev
            (if take 2 command = ''01'' then Send_command command else Send_ir_code command) self)"
  unfolding send_custom_command_def snd_case_result by simp

lemma update_except_frame:
  "self_state (snd (update_except ex self)) = self_state self"
  "self_state_attrs (snd (update_except ex self)) = self_state_attrs self"
  "self_current_temperature (snd (update_except ex self)) = self_current_temperature self"
  "self_current_swing_mode (snd (update_except ex self)) = self_current_swing_mode self"
  "self_current_operation (snd (update_except ex self)) = self_current_operation self"
  "self_current_fan_mode (snd (update_except ex self)) = self_current_fan_mode self"
  "self_air_condition_model (snd (update_except ex self)) = self_air_condition_model self"
  "self_target_temperature (snd (update_except ex self)) = self_target_temperature self"
  "device_calls (snd (update_except ex self)) = device_calls self"
  by (simp_all add: update_except_def split: exception.splits)

lemma update_except_available:
  "self_available (snd (update_except ex self)) \<Longrightarrow> self_available self"
  by (simp add: update_except_def split: exception.splits)

lemma update_except_raised:
  "fst (update_except ex self) \<noteq> None \<Longrightarrow> snd (update_except ex self) = self"
  by (simp add: update_except_def split: exception.splits)

lemma async_update_failed:
  "async_update (Inl (DeviceException msg)) self =
     (None, self\<lparr>device_calls := device_calls self @ [Device_status],
                 self_available := False,
                 logged := logged self @ [(ERROR, ''Got exception while fetching the state: %s'')]\<rparr>)"
  by (simp add: async_update_def update_except_def Let_def)

lemma readable_Inr:
  assumes "readable st"
  obtains b model load temperature swing fan operation l
  where "is_on st = Inr b" and "air_condition_model st = Inr model"
    and "load_power st = Inr load" and "target_temperature st = Inr temperature"
    and "swing_mode st = Inr swing" and "fan_speed st = Inr fan"
    and "mode st = Inr operation" and "led st = Inr l"
proof -
  from assms have "is_on st = Inr (projr (is_on st))"
    and "air_condition_model st = Inr (projr (air_condition_model st))"
    and "load_power st = Inr (projr (load_power st))"
    and "target_temperature st = Inr (projr (target_temperature st))"
    and "swing_mode st = Inr (projr (swing_mode st))"
    and "fan_speed st = Inr (projr (fan_speed st))"
    and "mode st = Inr (projr (mode st))"
    and "led st = Inr (projr (led st))"
    by (simp_all add: readable_def)
  then show ?thesis by (rule that)
qed

lemma status_attrs_readable:
  "status_attrs st = Inr attrs \<Longrightarrow>
     \<not> isl (air_condition_model st) \<and> \<not> isl (load_power st) \<and> \<not> isl (target_temperature st)
     \<and> \<not> isl (swing_mode st) \<and> \<not> isl (fan_speed st) \<and> \<not> isl (mode st) \<and> \<not> isl (led st)"
  by (simp add: status_attrs_def split: sum.splits)

text \<open>A poll in which every property is read: the whole block runs.\<close>

lemma async_update_readable:
  assumes "is_on st = Inr b" and "air_condition_model st = Inr model"
    and "load_power st = Inr load" and "target_temperature st = Inr temperature"
    and "swing_mode st = Inr swing" and "fan_speed st = Inr fan"
    and "mode st = Inr operation" and "led st = Inr l"
  shows "async_update (Inr st) self =
     (None,
      self\<lparr>device_calls := device_calls self @ [Device_status],
           logged := logged self @ [(DEBUG, ''Got new state: %s'')],
           self_available := True,
           self_state := Some b,
           self_state_attrs := self_state_attrs self ++
             [ATTR_AIR_CONDITION_MODEL \<mapsto> pystr model,
              ATTR_LOAD_POWER \<mapsto> PNum load,
              ATTR_TEMPERATURE \<mapsto> PNum temperature,
              ATTR_SWING_MODE \<mapsto> PStr (name swing),
              ATTR_FAN_SPEED \<mapsto> PStr (name fan),
              ATTR_OPERATION_MODE \<mapsto> PStr (name operation),
              ATTR_LED \<mapsto> l],
           self_current_operation := Some (name operation),
           self_target_temperature := Some temperature,
           self_current_fan_mode := Some (name fan),
           self_current_swing_mode := Some (name swing),
           self_air_condition_model :=
             (if self_air_condition_model self = None then model
              else self_air_condition_model self)\<rparr>)"
  using assms by (simp add: async_update_def status_attrs_def Let_def)

lemma async_update_calls:
  "device_calls (snd (async_update answer self)) = device_calls self @ [Device_status]"
  by (simp add: async_update_def Let_def update_except_frame split: sum.splits)

lemma async_update_temperature:
  "self_current_temperature (snd (async_update answer self)) = self_current_temperature self"
  by (simp add: async_update_def Let_def update_except_frame split: sum.splits)

text \<open>A poll that is not successful leaves the model as it was, and so does every poll
  of an entity whose model is set.\<close>

lemma async_update_model_unread:
  "\<not> successful_poll (Update answer) \<Longrightarrow>
     self_air_condition_model (snd (async_update answer self)) = self_air_condition_model self"
proof (cases answer)
  case (Inl ex)
  then show ?thesis
    by (simp add: async_update_def Let_def update_except_frame)
next
  case (Inr st)
  assume "\<not> successful_poll (Update answer)"
  with Inr have unread: "\<not> readable st" by simp
  show ?thesis
  proof (cases "status_attrs st")
    case (Inl ex)
    with Inr show ?thesis
      by (simp add: async_update_def Let_def update_except_frame split: sum.splits)
  next
    case attrs: (Inr attrs)
    with unread have "isl (is_on st)"
      using status_attrs_readable [of st attrs] by (simp add: readable_def)
    then obtain ex where "is_on st = Inl ex" by (cases "is_on st") simp_all
    with Inr show ?thesis
      by (simp add: async_update_def Let_def update_except_frame)
  qed
qed

lemma async_update_model_set:
  "self_air_condition_model self \<noteq> None \<Longrightarrow>
     self_air_condition_model (snd (async_update answer self)) = self_air_condition_model self"
  by (auto simp: async_update_def Let_def update_except_frame split: sum.splits)

lemma async_update_model_latch:
  "readable st \<Longrightarrow> self_air_condition_model self = None \<Longrightarrow>
     air_condition_model st = Inr model \<Longrightarrow>
     self_air_condition_model (snd (async_update (Inr st) self)) = model"
  by (erule readable_Inr) (simp add: async_update_readable)

lemma step_model:
  "\<not> successful_poll ev \<Longrightarrow>
     self_air_condition_model (snd (step ext ev self)) = self_air_condition_model self"
  by (cases ev rule: command_device.cases)
     (simp_all add: async_update_model_unread async_turn_on_snd async_turn_off_snd Let_def
        try_command_frame async_set_temperature_def async_set_swing_mode_def
        async_set_fan_mode_def async_set_operation_mode_def send_configuration_frame
        async_sensor_changed_frame send_custom_command_snd split: option.splits)

lemma step_model_kept:
  "self_air_condition_model self = Some X \<Longrightarrow>
     self_air_condition_model (snd (step ext ev self)) = Some X"
proof (cases "successful_poll ev")
  case False
  assume "self_air_condition_model self = Some X"
  with False show ?thesis by (simp add: step_model)
next
  case True
  assume m: "self_air_condition_model self = Some X"
  from True obtain st where "ev = Update (Inr st)"
    by (cases ev rule: successful_poll.cases) simp_all
  with m show ?thesis by (simp add: async_update_model_set)
qed

lemma run_append: "run ext (xs @ ys) self = run ext ys (run ext xs self)"
  by (induction xs arbitrary: self) simp_all

lemma run_model_kept:
  "self_air_condition_model self = Some X \<Longrightarrow>
     self_air_condition_model (run ext evs self) = Some X"
  by (induction evs arbitrary: self) (simp_all add: step_model_kept)

lemma run_model_none:
  "list_all (\<lambda>ev. \<not> successful_poll ev) evs \<Longrightarrow>
     self_air_condition_model (run ext evs self) = self_air_condition_model self"
  by (induction evs arbitrary: self) (simp_all add: step_model)

lemma init_model:
  "init ext sensor_entity_id sensor_state = Inr self \<Longrightarrow> self_air_condition_model self = None"
  unfolding init_def Let_def
  by (auto split: if_splits option.splits prod.splits
        dest!: arg_cong [where f = "\<lambda>p. self_air_condition_model (snd p)"]
        simp: async_update_temp_frame)

lemma example_init: "init example_externals ''sensor.temperature'' None = Inr example_new"
  by (simp add: init_def example_new_def)

lemma example_polled_fields:
  "self_available example_polled"
  "self_state example_polled = Some True"
  "self_air_condition_model example_polled = Some ''X''"
  "self_current_operation example_polled = Some ''Cool''"
  "self_current_fan_mode example_polled = Some ''Low''"
  "self_current_swing_mode example_polled = Some ''On''"
  "self_target_temperature example_polled = Some 24"
  "self_current_temperature example_polled = None"
  "logged example_polled = [(DEBUG, ''Got new state: %s'')]"
  "device_calls example_polled = [Device_status]"
  by (simp_all add: example_polled_def async_update_def status_attrs_def example_new_def
        example_status_def Let_def)

lemma example_new_fields:
  "\<not> self_available example_new"
  "self_state example_new = None"
  "self_air_condition_model example_new = None"
  "logged example_new = []"
  "device_calls example_new = []"
  by (simp_all add: example_new_def)

subsection \<open>Failed polls\<close>

lemma failed_polls_frame:
  "self_state (run ext (failed_polls msgs) self) = self_state self
   \<and> self_current_operation (run ext (failed_polls msgs) self) = self_current_operation self
   \<and> self_current_fan_mode (run ext (failed_polls msgs) self) = self_current_fan_mode self
   \<and> self_current_swing_mode (run ext (failed_polls msgs) self) = self_current_swing_mode self
   \<and> self_target_temperature (run ext (failed_polls msgs) self) = self_target_temperature self
   \<and> self_air_condition_model (run ext (failed_polls msgs) self) = self_air_condition_model self
   \<and> self_state_attrs (run ext (failed_polls msgs) self) = self_state_attrs self
   \<and> self_current_temperature (run ext (failed_polls msgs) self) = self_current_temperature self"
  by (induction msgs arbitrary: self) (simp_all add: failed_polls_def async_update_failed)

lemma failed_polls_unavailable:
  "\<not> self_available self \<Longrightarrow> \<not> self_available (run ext (failed_polls msgs) self)"
  by (induction msgs arbitrary: self) (simp_all add: failed_polls_def async_update_failed)

text \<open>
  C1. After every non-empty sequence of polls that fail with the transport exception,
  the entity is unavailable and the cached on/off flag, operation mode, fan mode,
  swing mode, target temperature, model and attribute dictionary (which holds the
  load power and the LED) are what they were before the first of them.
\<close>

theorem failed_polls_keep_state:
  "\<not> self_available (run ext (failed_polls (msg # msgs)) self)
   \<and> self_state (run ext (failed_polls (msg # msgs)) self) = self_state self
   \<and> self_current_operation (run ext (failed_polls (msg # msgs)) self) = self_current_operation self
   \<and> self_current_fan_mode (run ext (failed_polls (msg # msgs)) self) = self_current_fan_mode self
   \<and> self_current_swing_mode (run ext (failed_polls (msg # msgs)) self) = self_current_swing_mode self
   \<and> self_target_temperature (run ext (failed_polls (msg # msgs)) self) = self_target_temperature self
   \<and> self_air_condition_model (run ext (failed_polls (msg # msgs)) self) = self_air_condition_model self
   \<and> self_state_attrs (run ext (failed_polls (msg # msgs)) self) = self_state_attrs self"
proof -
  have "\<not> self_available (run ext (failed_polls (msg # msgs)) self)"
    using failed_polls_unavailable [of "snd (async_update (Inl (DeviceException msg)) self)" ext msgs]
    by (simp add: failed_polls_def async_update_failed)
  with failed_polls_frame [of ext "msg # msgs" self] show ?thesis
    by simp
qed

subsection \<open>The model latch\<close>

text \<open>
  C2. From the constructed object, after any events none of which is a successful
  poll (a poll that stops at a property it cannot read is none), a successful poll
  that reports the model \<open>X\<close> sets the model to \<open>X\<close>, and it is still \<open>X\<close> after any
  later events, whatever model the later polls report.
\<close>

theorem model_latched:
  assumes "init ext sensor_entity_id sensor_state = Inr self"
    and "list_all (\<lambda>ev. \<not> successful_poll ev) before"
    and "readable st"
    and "air_condition_model st = Inr (Some X)"
  shows "self_air_condition_model (run ext (before @ Update (Inr st) # later) self) = Some X"
proof -
  have "self_air_condition_model (run ext before self) = None"
    using assms(1,2) by (simp add: run_model_none init_model)
  then have "self_air_condition_model (snd (async_update (Inr st) (run ext before self))) = Some X"
    using assms(3,4) by (simp add: async_update_model_latch)
  then show ?thesis
    by (simp add: run_append run_model_kept)
qed

theorem model_latched_witness:
  "init example_externals ''sensor.temperature'' None = Inr example_new
   \<and> \<not> successful_poll (Update (Inl (DeviceException ''timeout'')) :: rat event)
   \<and> \<not> successful_poll (Update (Inr example_status_no_led))
   \<and> \<not> successful_poll (Set_fan_mode ''High'' device_ok)
   \<and> readable example_status
   \<and> air_condition_model example_status = Inr (Some ''X'')
   \<and> self_air_condition_model
        (run example_externals
           ([Update (Inl (DeviceException ''timeout'')), Update (Inr example_status_no_led),
             Set_fan_mode ''High'' device_ok]
            @ Update (Inr example_status)
            # [Update (Inr (example_status\<lparr>air_condition_model := Inr (Some ''Y'')\<rparr>)),
               Update (Inr (example_status\<lparr>air_condition_model := Inr None\<rparr>))])
           example_new) = Some ''X''"
  using model_latched [of example_externals "''sensor.temperature''" None example_new
      "[Update (Inl (DeviceException ''timeout'')), Update (Inr example_status_no_led),
        Set_fan_mode ''High'' device_ok]"
      example_status "''X''"
      "[Update (Inr (example_status\<lparr>air_condition_model := Inr (Some ''Y'')\<rparr>)),
        Update (Inr (example_status\<lparr>air_condition_model := Inr None\<rparr>))]"]
  by (simp add: example_init example_status_def example_status_no_led_def readable_def)

subsection \<open>The sensor\<close>

text \<open>
  C5. A sensor change with no new state, with no state value or with the value
  \<^verbatim>\<open>'unknown'\<close> changes nothing. With any other value \<open>s\<close>: if \<^verbatim>\<open>float(s)\<close> is \<open>v\<close> and the
  conversion from the sensor's unit returns \<open>t\<close> (which is \<open>v\<close> when the unit is the display
  unit), the current temperature becomes \<open>t\<close> and nothing else changes; if \<^verbatim>\<open>float(s)\<close>
  raises \<^verbatim>\<open>ValueError\<close>, one error is logged and nothing else changes, so the cached
  temperature is retained.
\<close>

theorem sensor_update:
  "(new_state = None \<or> (\<exists>st. new_state = Some st \<and> (state st = None \<or> state st = Some ''unknown''))
      \<longrightarrow> async_sensor_changed ext new_state self = (None, self))
   \<and> (\<forall>st s v t. new_state = Some st \<and> state st = Some s \<and> s \<noteq> ''unknown''
          \<and> py_float ext s = Inr v
          \<and> units_temperature ext v (attributes st ATTR_UNIT_OF_MEASUREMENT) = Inr t
      \<longrightarrow> async_sensor_changed ext new_state self =
            (None, self\<lparr>self_current_temperature := Some t\<rparr>))
   \<and> (\<forall>st s. new_state = Some st \<and> state st = Some s \<and> s \<noteq> ''unknown''
          \<and> py_float ext s = Inl ValueError
      \<longrightarrow> async_sensor_changed ext new_state self =
            (None, self\<lparr>logged := logged self @ [(ERROR, ''Unable to update from sensor: %s'')]\<rparr>))"
  by (auto simp: async_sensor_changed_def async_update_temp_def update_temp_except_def Let_def)

theorem sensor_update_witness:
  "async_sensor_changed example_externals None example_polled = (None, example_polled)
   \<and> async_sensor_changed example_externals (Some sensor_unknown) example_polled
       = (None, example_polled)
   \<and> py_float example_externals ''21.5'' = Inr (43 / 2)
   \<and> units_temperature example_externals (43 / 2) (attributes sensor_21_5 ATTR_UNIT_OF_MEASUREMENT)
       = Inr (43 / 2)
   \<and> async_sensor_changed example_externals (Some sensor_21_5) example_polled
       = (None, example_polled\<lparr>self_current_temperature := Some (43 / 2)\<rparr>)
   \<and> py_float example_externals ''abc'' = Inl ValueError
   \<and> async_sensor_changed example_externals (Some sensor_abc)
         (example_polled\<lparr>self_current_temperature := Some (43 / 2)\<rparr>)
       = (None, example_polled\<lparr>self_current_temperature := Some (43 / 2),
            logged := [(DEBUG, ''Got new state: %s''), (ERROR, ''Unable to update from sensor: %s'')]\<rparr>)"
  using sensor_update [of None example_externals example_polled]
    sensor_update [of "Some sensor_unknown" example_externals example_polled]
    sensor_update [of "Some sensor_21_5" example_externals example_polled]
    sensor_update [of "Some sensor_abc" example_externals
      "example_polled\<lparr>self_current_temperature := Some (43 / 2)\<rparr>"]
  by (simp add: example_externals_def sensor_unknown_def sensor_21_5_def sensor_abc_def
        example_polled_fields)

subsection \<open>The command wrapper\<close>

text \<open>
  C7. The wrapper returns \<^verbatim>\<open>True\<close> exactly when the device call returns \<^verbatim>\<open>['ok']\<close>. Any
  other returned acknowledgment gives \<^verbatim>\<open>False\<close>. A \<^verbatim>\<open>DeviceException\<close> gives \<^verbatim>\<open>False\<close> as
  well: it does not leave the method, and it is logged as one error with the caller's
  message.
\<close>

theorem try_command_success:
  "(fst (try_command mask_error dev call self) = Inr True \<longleftrightarrow> dev call = Inr [''ok''])
   \<and> (\<forall>result. dev call = Inr result \<and> result \<noteq> [''ok'']
         \<longrightarrow> fst (try_command mask_error dev call self) = Inr False)
   \<and> (\<forall>msg. dev call = Inl (DeviceException msg)
         \<longrightarrow> fst (try_command mask_error dev call self) = Inr False
           \<and> logged (snd (try_command mask_error dev call self))
               = logged self @ [(ERROR, mask_error)])"
  by (auto simp: try_command_def SUCCESS_def Let_def split: sum.splits exception.splits)

theorem try_command_success_witness:
  "device_ok Device_on = Inr [''ok'']
   \<and> fst (try_command ''Turning the miio device on failed.'' device_ok Device_on example_polled)
       = Inr True
   \<and> device_nack Device_on = Inr [''error''] \<and> [''error''] \<noteq> [''ok'']
   \<and> fst (try_command ''Turning the miio device on failed.'' device_nack Device_on example_polled)
       = Inr False
   \<and> device_down Device_on = Inl (DeviceException ''timeout'')
   \<and> fst (try_command ''Turning the miio device on failed.'' device_down Device_on example_polled)
       = Inr False
   \<and> logged (snd (try_command ''Turning the miio device on failed.'' device_down Device_on
         example_polled))
       = [(DEBUG, ''Got new state: %s''), (ERROR, ''Turning the miio device on failed.'')]"
  using try_command_success [of "''Turning the miio device on failed.''" device_ok Device_on
      example_polled]
    try_command_success [of "''Turning the miio device on failed.''" device_nack Device_on
      example_polled]
    try_command_success [of "''Turning the miio device on failed.''" device_down Device_on
      example_polled]
  by (simp add: device_ok_def device_nack_def device_down_def example_polled_fields)

subsection \<open>On and off\<close>

text \<open>
  C6. \<^verbatim>\<open>async_turn_on\<close> sets the on/off flag to \<^verbatim>\<open>True\<close> when the device answers \<^verbatim>\<open>['ok']\<close>
  and leaves it as it was otherwise; \<^verbatim>\<open>async_turn_off\<close> likewise with \<^verbatim>\<open>False\<close>. So a
  successful turn-on followed by a turn-off that fails with the transport exception
  leaves the flag \<^verbatim>\<open>True\<close>.
\<close>

theorem turn_on_off_flag:
  "self_state (snd (async_turn_on dev self))
     = (if dev Device_on = Inr [''ok''] then Some True else self_state self)
   \<and> self_state (snd (async_turn_off dev self))
     = (if dev Device_off = Inr [''ok''] then Some False else self_state self)
   \<and> (\<forall>msg. dev1 Device_on = Inr [''ok''] \<and> dev2 Device_off = Inl (DeviceException msg)
        \<longrightarrow> self_state (snd (async_turn_off dev2 (snd (async_turn_on dev1 self)))) = Some True)"
  by (simp add: async_turn_on_snd async_turn_off_snd Let_def try_command_frame SUCCESS_def)

theorem turn_on_off_flag_witness:
  "self_state example_new = None
   \<and> self_state (snd (async_turn_on device_nack example_new)) = None
   \<and> device_ok Device_on = Inr [''ok'']
   \<and> device_down Device_off = Inl (DeviceException ''timeout'')
   \<and> self_state (snd (async_turn_off device_down (snd (async_turn_on device_ok example_new))))
       = Some True"
  using turn_on_off_flag [of device_nack example_new device_ok device_down]
    turn_on_off_flag [of device_ok example_new device_ok device_down]
  by (simp add: device_ok_def device_nack_def device_down_def example_new_fields)

subsection \<open>The raw command sender\<close>

text \<open>
  C8. For every command string and every device, the sender makes exactly one device
  call: \<^verbatim>\<open>send_command\<close> with the whole string when its first two characters are \<^verbatim>\<open>01\<close>,
  and \<^verbatim>\<open>send_ir_code\<close> with the whole string otherwise. Nothing else of the string is
  looked at. So \<^verbatim>\<open>0123\<close> goes to \<^verbatim>\<open>send_command\<close> and \<^verbatim>\<open>FEabcd\<close> to \<^verbatim>\<open>send_ir_code\<close>.
\<close>

theorem send_custom_command_dispatch:
  "device_calls (snd (send_custom_command dev command self))
     = device_calls self @
         [if take 2 command = ''01'' then Send_command command else Send_ir_code command]
   \<and> device_calls (snd (send_custom_command dev ''0123'' self))
     = device_calls self @ [Send_command ''0123'']
   \<and> device_calls (snd (send_custom_command dev ''FEabcd'' self))
     = device_calls self @ [Send_ir_code ''FEabcd'']"
  by (simp add: send_custom_command_snd try_command_frame)

subsection \<open>The guard of the configuration push\<close>

lemma send_configuration_unset:
  "self_air_condition_model self = None \<Longrightarrow>
     send_configuration ext dev self =
       (None, self\<lparr>logged := logged self @
          [(ERROR, ''Model number of the air condition unknown. Configuration cannot be sent.'')]\<rparr>)"
  by (simp add: send_configuration_def)

lemma send_configuration_valid:
  "self_air_condition_model self = Some model \<Longrightarrow> self_state self = Some b \<Longrightarrow>
   self_current_operation self = Some m \<Longrightarrow> m \<in> set (OperationMode ext) \<Longrightarrow>
   self_current_fan_mode self = Some f \<Longrightarrow> f \<in> set (FanSpeed ext) \<Longrightarrow>
   self_current_swing_mode self = Some sw \<Longrightarrow> sw \<in> set (SwingMode ext) \<Longrightarrow>
     device_calls (snd (send_configuration ext dev self)) =
       device_calls self @
         [Send_configuration model (Power (if b then 1 else 0)) (Member m)
            (self_target_temperature self) (Member f) (Member sw) Led_Off]"
  by (simp add: send_configuration_def py_int_def getitem_def snd_case_result try_command_frame)

text \<open>
  C3, as the claim states it, fails: after a successful poll the model is set, and
  the setter called with an operation mode that \<^verbatim>\<open>OperationMode\<close> does not have raises
  \<^verbatim>\<open>KeyError\<close> while the arguments of the push are built; the device receives no call
  besides the status call of the poll.
\<close>

theorem push_guard_counterexample:
  "self_air_condition_model example_polled = Some ''X''
   \<and> fst (async_set_operation_mode example_externals device_ok ''bogus'' example_polled)
       = Some KeyError
   \<and> self_air_condition_model
        (snd (async_set_operation_mode example_externals device_ok ''bogus'' example_polled))
       = Some ''X''
   \<and> device_calls
        (snd (async_set_operation_mode example_externals device_ok ''bogus'' example_polled))
       = [Device_status]"
  by (simp add: async_set_operation_mode_def send_configuration_def py_int_def getitem_def
        example_polled_fields example_externals_def)

text \<open>
  C3, amended. \<^verbatim>\<open>_send_configuration\<close> calls the device only if the model is set. With
  the model set, the on/off flag set and the cached operation, fan and swing modes
  names of members of their enumerations, it makes exactly the one push call. With the
  model unset, each of the four setters makes no device call and logs exactly one
  error.
\<close>

theorem push_guard:
  "(device_calls (snd (send_configuration ext dev self)) \<noteq> device_calls self
      \<longrightarrow> self_air_condition_model self \<noteq> None)
   \<and> (self_air_condition_model self = Some model \<and> self_state self = Some b
         \<and> self_current_operation self = Some m \<and> m \<in> set (OperationMode ext)
         \<and> self_current_fan_mode self = Some f \<and> f \<in> set (FanSpeed ext)
         \<and> self_current_swing_mode self = Some sw \<and> sw \<in> set (SwingMode ext)
      \<longrightarrow> device_calls (snd (send_configuration ext dev self)) =
            device_calls self @
              [Send_configuration model (Power (if b then 1 else 0)) (Member m)
                 (self_target_temperature self) (Member f) (Member sw) Led_Off])
   \<and> (self_air_condition_model self = None \<longrightarrow>
        device_calls (snd (async_set_temperature ext dev temperature operation_mode self))
          = device_calls self
        \<and> logged (snd (async_set_temperature ext dev temperature operation_mode self))
          = logged self @
              [(ERROR, ''Model number of the air condition unknown. Configuration cannot be sent.'')]
        \<and> device_calls (snd (async_set_operation_mode ext dev new_mode self)) = device_calls self
        \<and> logged (snd (async_set_operation_mode ext dev new_mode self))
          = logged self @
              [(ERROR, ''Model number of the air condition unknown. Configuration cannot be sent.'')]
        \<and> device_calls (snd (async_set_fan_mode ext dev fan self)) = device_calls self
        \<and> logged (snd (async_set_fan_mode ext dev fan self))
          = logged self @
              [(ERROR, ''Model number of the air condition unknown. Configuration cannot be sent.'')]
        \<and> device_calls (snd (async_set_swing_mode ext dev swing self)) = device_calls self
        \<and> logged (snd (async_set_swing_mode ext dev swing self))
          = logged self @
              [(ERROR, ''Model number of the air condition unknown. Configuration cannot be sent.'')])"
proof (intro conjI impI)
  assume "device_calls (snd (send_configuration ext dev self)) \<noteq> device_calls self"
  then show "self_air_condition_model self \<noteq> None"
    using send_configuration_calls [of ext dev self] by auto
next
  assume "self_air_condition_model self = Some model \<and> self_state self = Some b
         \<and> self_current_operation self = Some m \<and> m \<in> set (OperationMode ext)
         \<and> self_current_fan_mode self = Some f \<and> f \<in> set (FanSpeed ext)
         \<and> self_current_swing_mode self = Some sw \<and> sw \<in> set (SwingMode ext)"
  then show "device_calls (snd (send_configuration ext dev self)) =
            device_calls self @
              [Send_configuration model (Power (if b then 1 else 0)) (Member m)
                 (self_target_temperature self) (Member f) (Member sw) Led_Off]"
    by (simp add: send_configuration_valid)
qed (simp_all add: async_set_temperature_def async_set_operation_mode_def
       async_set_fan_mode_def async_set_swing_mode_def send_configuration_unset
       split: option.splits)

theorem push_guard_witness:
  "self_air_condition_model example_polled = Some ''X'' \<and> self_state example_polled = Some True
   \<and> self_current_operation example_polled = Some ''Cool''
   \<and> ''Cool'' \<in> set (OperationMode example_externals)
   \<and> self_current_fan_mode example_polled = Some ''Low''
   \<and> ''Low'' \<in> set (FanSpeed example_externals)
   \<and> self_current_swing_mode example_polled = Some ''On''
   \<and> ''On'' \<in> set (SwingMode example_externals)
   \<and> device_calls (snd (send_configuration example_externals device_ok example_polled))
       = [Device_status,
          Send_configuration ''X'' (Power 1) (Member ''Cool'') (Some 24) (Member ''Low'')
            (Member ''On'') Led_Off]
   \<and> device_calls (snd (send_configuration example_externals device_ok example_polled))
       \<noteq> device_calls example_polled
   \<and> self_air_condition_model example_new = None
   \<and> device_calls (snd (async_set_fan_mode example_externals device_ok ''High'' example_new)) = []
   \<and> logged (snd (async_set_fan_mode example_externals device_ok ''High'' example_new))
       = [(ERROR, ''Model number of the air condition unknown. Configuration cannot be sent.'')]"
  using push_guard [where ext = example_externals and dev = device_ok and self = example_polled
      and model = "''X''" and b = True and m = "''Cool''" and f = "''Low''" and sw = "''On''"]
    push_guard [where ext = example_externals and dev = device_ok and self = example_new
      and fan = "''High''"]
  by (simp add: example_polled_fields example_new_fields example_externals_def)

subsection \<open>Availability\<close>

lemma async_update_available:
  "self_available (snd (async_update answer self)) \<Longrightarrow>
     self_available self \<or> status_returned (Update answer)"
  by (cases answer) (auto simp: async_update_def Let_def dest: update_except_available)

lemma async_update_successful:
  "readable st \<Longrightarrow> self_available (snd (async_update (Inr st) self))"
  by (erule readable_Inr) (simp add: async_update_readable)

lemma try_command_availability:
  "self_available (snd (try_command mask_error dev call self)) =
     (self_available self \<and> (\<forall>msg. dev call \<noteq> Inl (DeviceException msg)))"
  by (auto simp: try_command_def Let_def split: sum.splits exception.splits)

text \<open>
  A command makes no device call and leaves the availability as it was, or it makes
  one call, whose outcome decides the availability.
\<close>

lemma send_configuration_availability:
  "device_calls (snd (send_configuration ext dev self)) = device_calls self
     \<and> self_available (snd (send_configuration ext dev self)) = self_available self
   \<or> (\<exists>c. device_calls (snd (send_configuration ext dev self)) = device_calls self @ [c]
         \<and> self_available (snd (send_configuration ext dev self)) =
             (self_available self \<and> (\<forall>msg. dev c \<noteq> Inl (DeviceException msg))))"
  using send_configuration_snd [of ext dev self]
  by (auto simp: try_command_frame try_command_availability)

lemma send_configuration_moved:
  assumes "device_calls self' = device_calls self" and "self_available self' = self_available self"
  shows "device_calls (snd (send_configuration ext dev self')) = device_calls self
     \<and> self_available (snd (send_configuration ext dev self')) = self_available self
   \<or> (\<exists>c. device_calls (snd (send_configuration ext dev self')) = device_calls self @ [c]
         \<and> self_available (snd (send_configuration ext dev self')) =
             (self_available self \<and> (\<forall>msg. dev c \<noteq> Inl (DeviceException msg))))"
  using send_configuration_availability [of ext dev self'] assms by simp

lemma step_command_availability:
  assumes "command_device ev = Some dev"
  shows "device_calls (snd (step ext ev self)) = device_calls self
     \<and> self_available (snd (step ext ev self)) = self_available self
   \<or> (\<exists>c. device_calls (snd (step ext ev self)) = device_calls self @ [c]
         \<and> self_available (snd (step ext ev self)) =
             (self_available self \<and> (\<forall>msg. dev c \<noteq> Inl (DeviceException msg))))"
proof (cases ev)
  case (Update answer)
  with assms show ?thesis by simp
next
  case (Turn_on d)
  with assms show ?thesis
    by (simp add: async_turn_on_snd Let_def try_command_frame try_command_availability)
next
  case (Turn_off d)
  with assms show ?thesis
    by (simp add: async_turn_off_snd Let_def try_command_frame try_command_availability)
next
  case (Set_temperature t m d)
  with assms have "d = dev" by simp
  show ?thesis
    unfolding Set_temperature \<open>d = dev\<close>
    by (cases t; cases m; simp add: async_set_temperature_def Let_def;
        rule send_configuration_moved; simp)
next
  case (Set_swing_mode sw d)
  with assms show ?thesis
    using send_configuration_availability [of ext dev "self\<lparr>self_current_swing_mode := Some sw\<rparr>"]
    by (simp add: async_set_swing_mode_def)
next
  case (Set_fan_mode f d)
  with assms show ?thesis
    using send_configuration_availability [of ext dev "self\<lparr>self_current_fan_mode := Some f\<rparr>"]
    by (simp add: async_set_fan_mode_def)
next
  case (Set_operation_mode m d)
  with assms show ?thesis
    using send_configuration_availability [of ext dev "self\<lparr>self_current_operation := Some m\<rparr>"]
    by (simp add: async_set_operation_mode_def)
next
  case (Sensor_changed new_state)
  with assms show ?thesis by simp
next
  case (Send_custom_command command d)
  with assms show ?thesis
    by (simp add: send_custom_command_snd try_command_frame try_command_availability)
qed

lemma step_command_called:
  assumes "command_device ev = Some dev"
    and "device_calls (snd (step ext ev self)) = device_calls self @ [call]"
  shows "self_available (snd (step ext ev self)) =
     (self_available self \<and> (\<forall>msg. dev call \<noteq> Inl (DeviceException msg)))"
  using step_command_availability [OF assms(1), of ext self]
proof (elim disjE exE conjE)
  assume "device_calls (snd (step ext ev self)) = device_calls self"
  with assms(2) show ?thesis by simp
next
  fix c
  assume c: "device_calls (snd (step ext ev self)) = device_calls self @ [c]"
    and a: "self_available (snd (step ext ev self)) =
      (self_available self \<and> (\<forall>msg. dev c \<noteq> Inl (DeviceException msg)))"
  from c assms(2) have "c = call" by simp
  with a show ?thesis by simp
qed

lemma step_available:
  "self_available (snd (step ext ev self)) \<Longrightarrow> self_available self \<or> status_returned ev"
proof (cases "command_device ev")
  case (Some dev)
  assume after: "self_available (snd (step ext ev self))"
  from step_command_availability [OF Some, of ext self] show ?thesis
  proof (elim disjE exE conjE)
    assume "self_available (snd (step ext ev self)) = self_available self"
    with after show ?thesis by simp
  next
    fix c
    assume "self_available (snd (step ext ev self)) =
      (self_available self \<and> (\<forall>msg. dev c \<noteq> Inl (DeviceException msg)))"
    with after have "self_available self"
      by simp
    then show ?thesis ..
  qed
next
  case None
  assume after: "self_available (snd (step ext ev self))"
  from None consider answer where "ev = Update answer"
    | new_state where "ev = Sensor_changed new_state"
    by (cases ev) simp_all
  then show ?thesis
  proof cases
    case 1
    with after show ?thesis
      using async_update_available [of answer self] by simp
  next
    case 2
    with after show ?thesis
      by (simp add: async_sensor_changed_frame)
  qed
qed

lemma init_available:
  "init ext sensor_entity_id sensor_state = Inr self \<Longrightarrow> \<not> self_available self"
  unfolding init_def Let_def
  by (auto split: if_splits option.splits prod.splits
        dest!: arg_cong [where f = "\<lambda>p. self_available (snd p)"]
        simp: async_update_temp_frame)

text \<open>
  A poll of the new object whose status has no \<^verbatim>\<open>led\<close> property: the read raises while
  the dictionary literal is built, after \<^verbatim>\<open>_available\<close> and \<^verbatim>\<open>_state\<close> were assigned.
\<close>

lemma example_poll_without_led:
  "async_update (Inr example_status_no_led) example_new =
     (Some AttributeError,
      example_new\<lparr>device_calls := [Device_status],
        logged := [(DEBUG, ''Got new state: %s'')],
        self_available := True,
        self_state := Some True\<rparr>)"
  by (simp add: async_update_def status_attrs_def update_except_def Let_def
        example_status_no_led_def example_status_def example_new_def)

text \<open>
  C4, as the claim states it, fails: the entity is available after a successful poll,
  the device answers the turn-on command with \<^verbatim>\<open>['error']\<close>, the wrapper returns \<^verbatim>\<open>False\<close>,
  and the entity is still available.
\<close>

theorem availability_counterexample:
  "self_available example_polled
   \<and> fst (try_command ''Turning the miio device on failed.'' device_nack Device_on example_polled)
       = Inr False
   \<and> self_available
       (snd (try_command ''Turning the miio device on failed.'' device_nack Device_on
          example_polled))
   \<and> self_available (snd (async_turn_on device_nack example_polled))"
  by (simp add: async_turn_on_snd try_command_def Let_def device_nack_def SUCCESS_def
        example_polled_fields)

text \<open>
  C4, amended. The constructed object is unavailable. A call makes an unavailable
  entity available only if it is a poll whose status call returns, and every
  successful poll does. A poll whose status call fails with the transport exception
  leaves the entity unavailable. Every command (on, off, the four setters, the raw
  command) whose device call fails with the transport exception leaves the entity
  unavailable, and every command whose device call returns, whatever the
  acknowledgment, leaves the flag as it was; so does the wrapper for any call.
\<close>

theorem availability:
  "(init ext sensor_entity_id sensor_state = Inr new \<longrightarrow> \<not> self_available new)
   \<and> (\<not> self_available self \<and> self_available (snd (step ext ev self)) \<longrightarrow> status_returned ev)
   \<and> (successful_poll ev \<longrightarrow> self_available (snd (step ext ev self)))
   \<and> \<not> self_available (snd (async_update (Inl (DeviceException msg)) self))
   \<and> (command_device ev = Some dev
        \<and> device_calls (snd (step ext ev self)) = device_calls self @ [call]
        \<and> dev call = Inl (DeviceException msg)
        \<longrightarrow> \<not> self_available (snd (step ext ev self)))
   \<and> (command_device ev = Some dev
        \<and> device_calls (snd (step ext ev self)) = device_calls self @ [call]
        \<and> dev call = Inr result
        \<longrightarrow> self_available (snd (step ext ev self)) = self_available self)
   \<and> (dev call = Inl (DeviceException msg)
        \<longrightarrow> \<not> self_available (snd (try_command mask_error dev call self)))
   \<and> (dev call = Inr result
        \<longrightarrow> self_available (snd (try_command mask_error dev call self)) = self_available self)"
proof (intro conjI impI)
  assume "init ext sensor_entity_id sensor_state = Inr new"
  then show "\<not> self_available new" by (rule init_available)
next
  assume "\<not> self_available self \<and> self_available (snd (step ext ev self))"
  then show "status_returned ev" using step_available [of ext ev self] by blast
next
  assume "successful_poll ev"
  then obtain st where "ev = Update (Inr st)" and "readable st"
    by (cases ev rule: successful_poll.cases) simp_all
  then show "self_available (snd (step ext ev self))"
    by (simp add: async_update_successful)
next
  show "\<not> self_available (snd (async_update (Inl (DeviceException msg)) self))"
    by (simp add: async_update_failed)
next
  assume "command_device ev = Some dev
        \<and> device_calls (snd (step ext ev self)) = device_calls self @ [call]
        \<and> dev call = Inl (DeviceException msg)"
  then have "command_device ev = Some dev"
    and "device_calls (snd (step ext ev self)) = device_calls self @ [call]"
    and "dev call = Inl (DeviceException msg)"
    by simp_all
  then show "\<not> self_available (snd (step ext ev self))"
    using step_command_called [of ev dev ext self call] by simp
next
  assume "command_device ev = Some dev
        \<and> device_calls (snd (step ext ev self)) = device_calls self @ [call]
        \<and> dev call = Inr result"
  then have "command_device ev = Some dev"
    and "device_calls (snd (step ext ev self)) = device_calls self @ [call]"
    and "dev call = Inr result"
    by simp_all
  then show "self_available (snd (step ext ev self)) = self_available self"
    using step_command_called [of ev dev ext self call] by simp
next
  assume "dev call = Inl (DeviceException msg)"
  then show "\<not> self_available (snd (try_command mask_error dev call self))"
    by (simp add: try_command_availability)
next
  assume "dev call = Inr result"
  then show "self_available (snd (try_command mask_error dev call self)) = self_available self"
    by (simp add: try_command_availability)
qed

theorem availability_witness:
  "init example_externals ''sensor.temperature'' None = Inr example_new
   \<and> \<not> self_available example_new
   \<and> successful_poll (Update (Inr example_status))
   \<and> status_returned (Update (Inr example_status))
   \<and> self_available (snd (step example_externals (Update (Inr example_status)) example_new))
   \<and> command_device (Turn_off device_down) = Some device_down
   \<and> device_calls (snd (step example_externals (Turn_off device_down) example_polled))
       = device_calls example_polled @ [Device_off]
   \<and> device_down Device_off = Inl (DeviceException ''timeout'')
   \<and> \<not> self_available (snd (step example_externals (Turn_off device_down) example_polled))
   \<and> command_device (Turn_off device_nack) = Some device_nack
   \<and> device_calls (snd (step example_externals (Turn_off device_nack) example_polled))
       = device_calls example_polled @ [Device_off]
   \<and> device_nack Device_off = Inr [''error'']
   \<and> self_available (snd (step example_externals (Turn_off device_nack) example_polled))
   \<and> \<not> self_available
         (snd (try_command ''Turning the miio device off failed.'' device_down Device_off
            example_polled))
   \<and> self_available
         (snd (try_command ''Turning the miio device off failed.'' device_nack Device_off
            example_polled))"
  using availability [where ext = example_externals and sensor_entity_id = "''sensor.temperature''"
      and sensor_state = None and new = example_new and self = example_new
      and ev = "Update (Inr example_status)"]
    availability [where ext = example_externals and ev = "Turn_off device_down"
      and dev = device_down and call = Device_off and msg = "''timeout''"
      and self = example_polled and mask_error = "''Turning the miio device off failed.''"]
    availability [where ext = example_externals and ev = "Turn_off device_nack"
      and dev = device_nack and call = Device_off and result = "[''error'']"
      and self = example_polled and mask_error = "''Turning the miio device off failed.''"]
  by (simp add: example_init example_new_fields example_polled_fields device_down_def
        device_nack_def example_status_def readable_def async_turn_off_snd Let_def
        try_command_frame)

subsection \<open>The calls a method makes\<close>

lemma send_configuration_new_calls:
  "\<exists>cs. device_calls (snd (send_configuration ext dev self)) = device_calls self @ cs
     \<and> (\<forall>model p m t f sw l. Send_configuration model p m t f sw l \<in> set cs \<longrightarrow>
           l = Led_Off \<and> t = self_target_temperature self \<and> self_air_condition_model self \<noteq> None)"
proof -
  from send_configuration_calls [of ext dev self]
  consider "device_calls (snd (send_configuration ext dev self)) = device_calls self @ []"
    | model p m f sw where "self_air_condition_model self = Some model"
        "device_calls (snd (send_configuration ext dev self)) =
           device_calls self @
             [Send_configuration model p m (self_target_temperature self) f sw Led_Off]"
    by auto
  then show ?thesis
  proof cases
    case 1
    then show ?thesis by (intro exI [of _ "[]"]) simp
  next
    case 2
    then show ?thesis
      by (intro exI [of _ "[Send_configuration model p m (self_target_temperature self) f sw Led_Off]"])
         simp
  qed
qed

lemma step_new_calls:
  "\<exists>cs. device_calls (snd (step ext ev self)) = device_calls self @ cs
     \<and> (\<forall>model p m t f sw l. Send_configuration model p m t f sw l \<in> set cs \<longrightarrow>
           l = Led_Off \<and> t = self_target_temperature (snd (step ext ev self))
           \<and> self_air_condition_model (snd (step ext ev self)) \<noteq> None)"
proof (cases ev)
  case (Update answer)
  then show ?thesis
    by (intro exI [of _ "[Device_status]"]) (simp add: async_update_calls)
next
  case (Turn_on dev)
  then show ?thesis
    by (intro exI [of _ "[Device_on]"]) (simp add: async_turn_on_snd Let_def try_command_frame)
next
  case (Turn_off dev)
  then show ?thesis
    by (intro exI [of _ "[Device_off]"]) (simp add: async_turn_off_snd Let_def try_command_frame)
next
  case (Set_temperature t m dev)
  then show ?thesis
    using send_configuration_new_calls [of ext dev
        "(case m of Some v \<Rightarrow> (\<lambda>s. s\<lparr>self_current_operation := Some v\<rparr>) | None \<Rightarrow> (\<lambda>s. s))
           ((case t of Some v \<Rightarrow> (\<lambda>s. s\<lparr>self_target_temperature := Some v\<rparr>) | None \<Rightarrow> (\<lambda>s. s))
              self)"]
    by (cases t; cases m)
       (simp_all add: async_set_temperature_def Let_def send_configuration_frame)
next
  case (Set_swing_mode sw dev)
  then show ?thesis
    using send_configuration_new_calls [of ext dev "self\<lparr>self_current_swing_mode := Some sw\<rparr>"]
    by (simp add: async_set_swing_mode_def send_configuration_frame)
next
  case (Set_fan_mode f dev)
  then show ?thesis
    using send_configuration_new_calls [of ext dev "self\<lparr>self_current_fan_mode := Some f\<rparr>"]
    by (simp add: async_set_fan_mode_def send_configuration_frame)
next
  case (Set_operation_mode m dev)
  then show ?thesis
    using send_configuration_new_calls [of ext dev "self\<lparr>self_current_operation := Some m\<rparr>"]
    by (simp add: async_set_operation_mode_def send_configuration_frame)
next
  case (Sensor_changed new_state)
  then show ?thesis
    by (intro exI [of _ "[]"]) (simp add: async_sensor_changed_frame)
next
  case (Send_custom_command command dev)
  then show ?thesis
    by (intro exI [of _ "[if take 2 command = ''01'' then Send_command command
                          else Send_ir_code command]"])
       (simp add: send_custom_command_snd try_command_frame)
qed

subsection \<open>The model is set only together with the other fields of the push\<close>

lemma async_update_keeps_fields:
  "push_fields_set self \<Longrightarrow> push_fields_set (snd (async_update answer self))"
  by (auto simp: async_update_def Let_def update_except_frame push_fields_set_def
        split: sum.splits)

lemma async_update_push_fields:
  assumes "self_air_condition_model self \<noteq> None \<longrightarrow> push_fields_set self"
  shows "self_air_condition_model (snd (async_update answer self)) \<noteq> None
           \<longrightarrow> push_fields_set (snd (async_update answer self))"
proof (cases "successful_poll (Update answer)")
  case True
  then obtain st where "answer = Inr st" and "readable st"
    by (cases answer) simp_all
  then show ?thesis
    by (elim readable_Inr) (simp add: async_update_readable push_fields_set_def)
next
  case False
  with assms show ?thesis
    by (simp add: async_update_model_unread async_update_keeps_fields)
qed

lemma step_push_fields:
  assumes "self_air_condition_model self \<noteq> None \<longrightarrow> push_fields_set self"
  shows "self_air_condition_model (snd (step ext ev self)) \<noteq> None
           \<longrightarrow> push_fields_set (snd (step ext ev self))"
proof (cases ev)
  case (Update answer)
  with async_update_push_fields [OF assms, of answer] show ?thesis
    by simp
next
  case (Set_temperature t m dev)
  with assms show ?thesis
    by (cases t; cases m)
       (simp_all add: async_set_temperature_def Let_def send_configuration_frame
          push_fields_set_def)
qed (use assms in \<open>auto simp: push_fields_set_def async_turn_on_snd async_turn_off_snd Let_def
       try_command_frame async_set_swing_mode_def async_set_fan_mode_def
       async_set_operation_mode_def send_configuration_frame async_sensor_changed_frame
       send_custom_command_snd\<close>)

lemma init_new:
  "init ext sensor_entity_id sensor_state = Inr self \<Longrightarrow>
     self_air_condition_model self = None \<and> device_calls self = []"
  unfolding init_def Let_def
  by (auto split: if_splits option.splits prod.splits
        dest!: arg_cong [where f = "\<lambda>p. (self_air_condition_model (snd p), device_calls (snd p))"]
        simp: async_update_temp_frame)

lemma run_pushes:
  assumes "self_air_condition_model self \<noteq> None \<longrightarrow> push_fields_set self"
    and "\<forall>model p m t f sw l. Send_configuration model p m t f sw l \<in> set (device_calls self)
           \<longrightarrow> l = Led_Off \<and> t \<noteq> None"
  shows "(self_air_condition_model (run ext evs self) \<noteq> None \<longrightarrow> push_fields_set (run ext evs self))
    \<and> (\<forall>model p m t f sw l. Send_configuration model p m t f sw l \<in> set (device_calls (run ext evs self))
           \<longrightarrow> l = Led_Off \<and> t \<noteq> None)"
  using assms
proof (induction evs arbitrary: self)
  case Nil
  then show ?case by simp
next
  case (Cons ev evs)
  have fields: "self_air_condition_model (snd (step ext ev self)) \<noteq> None
      \<longrightarrow> push_fields_set (snd (step ext ev self))"
    using Cons.prems(1) by (rule step_push_fields)
  obtain cs where cs: "device_calls (snd (step ext ev self)) = device_calls self @ cs"
    and new: "\<forall>model p m t f sw l. Send_configuration model p m t f sw l \<in> set cs \<longrightarrow>
           l = Led_Off \<and> t = self_target_temperature (snd (step ext ev self))
           \<and> self_air_condition_model (snd (step ext ev self)) \<noteq> None"
    using step_new_calls [of ext ev self] by (elim exE conjE)
  have trace: "\<forall>model p m t f sw l.
      Send_configuration model p m t f sw l \<in> set (device_calls (snd (step ext ev self)))
        \<longrightarrow> l = Led_Off \<and> t \<noteq> None"
  proof (intro allI impI)
    fix model p m t f sw l
    assume "Send_configuration model p m t f sw l \<in> set (device_calls (snd (step ext ev self)))"
    then consider "Send_configuration model p m t f sw l \<in> set (device_calls self)"
      | "Send_configuration model p m t f sw l \<in> set cs"
      unfolding cs by (simp only: set_append Un_iff) (erule disjE)
    then show "l = Led_Off \<and> t \<noteq> None"
    proof cases
      case 1
      then show ?thesis by (rule Cons.prems(2) [rule_format])
    next
      case 2
      then have "l = Led_Off \<and> t = self_target_temperature (snd (step ext ev self))
        \<and> self_air_condition_model (snd (step ext ev self)) \<noteq> None"
        by (rule new [rule_format])
      with fields show ?thesis by (simp add: push_fields_set_def)
    qed
  qed
  have "run ext (ev # evs) self = run ext evs (snd (step ext ev self))"
    by simp
  then show ?case
    using Cons.IH [OF fields trace] by (simp only:)
qed

lemma try_command_attrs:
  "try_command mask_error dev call (self\<lparr>self_state_attrs := attrs\<rparr>) =
     (fst (try_command mask_error dev call self),
      (snd (try_command mask_error dev call self))\<lparr>self_state_attrs := attrs\<rparr>)"
  by (simp add: try_command_def Let_def split: sum.splits exception.splits)

lemma send_configuration_attrs:
  "send_configuration ext dev (self\<lparr>self_state_attrs := attrs\<rparr>) =
     (fst (send_configuration ext dev self),
      (snd (send_configuration ext dev self))\<lparr>self_state_attrs := attrs\<rparr>)"
  by (simp add: send_configuration_def try_command_attrs split: option.splits sum.splits prod.splits)

lemma example_run:
  "run example_externals example_events example_new
     = snd (async_set_fan_mode example_externals device_ok ''High'' example_polled)"
  by (simp add: example_events_def example_polled_def)

lemma example_run_fields:
  "device_calls (run example_externals example_events example_new)
     = [Device_status,
        Send_configuration ''X'' (Power 1) (Member ''Cool'') (Some 24) (Member ''High'')
          (Member ''On'') Led_Off]"
  "self_air_condition_model (run example_externals example_events example_new) = Some ''X''"
  "self_state (run example_externals example_events example_new) = Some True"
  "self_current_operation (run example_externals example_events example_new) = Some ''Cool''"
  "self_current_fan_mode (run example_externals example_events example_new) = Some ''High''"
  "self_current_swing_mode (run example_externals example_events example_new) = Some ''On''"
  "self_target_temperature (run example_externals example_events example_new) = Some 24"
  unfolding example_run
  by (simp_all add: async_set_fan_mode_def send_configuration_frame send_configuration_valid
        example_polled_fields example_externals_def)

text \<open>
  C9. In every run from the constructed object, every push call made on the device
  carries \<^verbatim>\<open>Led.Off\<close>. The push does not read the attribute dictionary, which is where
  the poll stores the LED that the device reports: with any other dictionary
  \<^verbatim>\<open>_send_configuration\<close> raises or returns the same, makes the same device calls and logs
  the same.
\<close>

theorem push_led_off:
  assumes "init ext sensor_entity_id sensor_state = Inr new"
  shows "(Send_configuration model p m t f sw l \<in> set (device_calls (run ext evs new))
            \<longrightarrow> l = Led_Off)
    \<and> fst (send_configuration ext dev (self\<lparr>self_state_attrs := attrs\<rparr>))
        = fst (send_configuration ext dev self)
    \<and> device_calls (snd (send_configuration ext dev (self\<lparr>self_state_attrs := attrs\<rparr>)))
        = device_calls (snd (send_configuration ext dev self))
    \<and> logged (snd (send_configuration ext dev (self\<lparr>self_state_attrs := attrs\<rparr>)))
        = logged (snd (send_configuration ext dev self))"
proof -
  from assms have "self_air_condition_model new = None" and "device_calls new = []"
    by (simp_all add: init_new)
  then have "\<forall>model p m t f sw l.
      Send_configuration model p m t f sw l \<in> set (device_calls (run ext evs new))
        \<longrightarrow> l = Led_Off \<and> t \<noteq> None"
    using run_pushes [of new ext evs] by simp
  then have "Send_configuration model p m t f sw l \<in> set (device_calls (run ext evs new))
      \<Longrightarrow> l = Led_Off"
    by (rule allE [of _ model], elim allE [of _ p] allE [of _ m] allE [of _ t] allE [of _ f]
         allE [of _ sw] allE [of _ l]) simp
  then show ?thesis
    by (simp add: send_configuration_attrs)
qed

theorem push_led_off_witness:
  "init example_externals ''sensor.temperature'' None = Inr example_new
   \<and> led example_status = Inr (PStr ''on'')
   \<and> Send_configuration ''X'' (Power 1) (Member ''Cool'') (Some 24) (Member ''High'')
        (Member ''On'') Led_Off
       \<in> set (device_calls
           (run example_externals example_events example_new))"
  using push_led_off [of example_externals "''sensor.temperature''" None example_new
      "''X''" "Power 1" "Member ''Cool''" "Some 24" "Member ''High''" "Member ''On''" Led_Off
      example_events]
  by (simp add: example_init example_run_fields example_status_def)

text \<open>
  C10. In every state that a run from the constructed object reaches, if the model is
  set then the on/off flag, the operation mode, the fan mode, the swing mode and the
  target temperature are set too; and every push call that the run has made on the
  device carries a target temperature.
\<close>

theorem model_set_fields_set:
  assumes "init ext sensor_entity_id sensor_state = Inr new"
  shows "(self_air_condition_model (run ext evs new) \<noteq> None \<longrightarrow>
            self_state (run ext evs new) \<noteq> None
            \<and> self_current_operation (run ext evs new) \<noteq> None
            \<and> self_current_fan_mode (run ext evs new) \<noteq> None
            \<and> self_current_swing_mode (run ext evs new) \<noteq> None
            \<and> self_target_temperature (run ext evs new) \<noteq> None)
    \<and> (Send_configuration model p m t f sw l \<in> set (device_calls (run ext evs new))
          \<longrightarrow> t \<noteq> None)"
proof -
  from assms have "self_air_condition_model new = None" and "device_calls new = []"
    by (simp_all add: init_new)
  then have "(self_air_condition_model (run ext evs new) \<noteq> None
        \<longrightarrow> push_fields_set (run ext evs new))
    \<and> (\<forall>model p m t f sw l.
          Send_configuration model p m t f sw l \<in> set (device_calls (run ext evs new))
            \<longrightarrow> l = Led_Off \<and> t \<noteq> None)"
    using run_pushes [of new ext evs] by simp
  then have fields: "self_air_condition_model (run ext evs new) \<noteq> None
        \<longrightarrow> push_fields_set (run ext evs new)"
    and calls: "\<forall>model p m t f sw l.
          Send_configuration model p m t f sw l \<in> set (device_calls (run ext evs new))
            \<longrightarrow> l = Led_Off \<and> t \<noteq> None"
    by (rule conjunct1, rule conjunct2)
  from calls [rule_format, of model p m t f sw l]
  have "Send_configuration model p m t f sw l \<in> set (device_calls (run ext evs new))
      \<longrightarrow> t \<noteq> None"
    by (intro impI) (rule conjunct2)
  with fields show ?thesis
    unfolding push_fields_set_def by (intro conjI)
qed

theorem model_set_fields_set_witness:
  "init example_externals ''sensor.temperature'' None = Inr example_new
   \<and> self_air_condition_model
       (run example_externals example_events example_new) = Some ''X''
   \<and> self_state
       (run example_externals example_events example_new) = Some True
   \<and> self_target_temperature
       (run example_externals example_events example_new) = Some 24
   \<and> Send_configuration ''X'' (Power 1) (Member ''Cool'') (Some 24) (Member ''High'')
        (Member ''On'') Led_Off
       \<in> set (device_calls
           (run example_externals example_events example_new))"
  using model_set_fields_set [of example_externals "''sensor.temperature''" None example_new
      example_events
      "''X''" "Power 1" "Member ''Cool''" "Some 24" "Member ''High''" "Member ''On''" Led_Off]
  by (simp add: example_init example_run_fields)

end
